theory Spec2Isabelle
  imports Complex_Main "HOL-Library.Word" "HOL-Library.AList"
begin

section \<open>Common types\<close>

text \<open>
  The counters of the gateway are \<open>uint32_t\<close> (\<open>std::atomic<uint32_t>\<close>); they are
  32-bit words here, so \<open>fetch_add\<close> and \<open>fetch_sub\<close> wrap modulo \<open>2^32\<close> as in C++.
  The operations are modelled as they run on one thread: each takes the state and returns
  the new one.

  A \<open>std::chrono\<close> time point is its tick count (nanoseconds of the clock). Reading
  the clock is an input: every operation that calls \<open>now()\<close> takes the reading as the
  argument \<open>now\<close>. Readings of one clock are non-negative 64-bit counts, so the
  difference of two readings is computed without overflow.

  A duration given in seconds or minutes is compared with a difference of time points in
  the clock's unit: \<open>std::chrono\<close> converts it by multiplying its signed 64-bit count
  in 64-bit arithmetic. A product outside the signed 64-bit range comes out as its
  two's-complement wrap in the compiled code, which is what \<open>int64_wrap\<close> computes.
\<close>

type_synonym u16 = "16 word"
type_synonym u32 = "32 word"
type_synonym u64 = "64 word"
type_synonym time_point = int

definition int64_wrap :: "int \<Rightarrow> int" where
  \<comment> \<open>the value of a signed 64-bit result: reduced modulo \<open>2^64\<close> into \<open>[-2^63, 2^63)\<close>\<close>
  "int64_wrap x = (x + 9223372036854775808) mod 18446744073709551616 - 9223372036854775808"

definition seconds :: "int \<Rightarrow> int" where
  \<comment> \<open>\<open>std::chrono::seconds(s)\<close> converted to clock ticks (nanoseconds, signed 64-bit)\<close>
  "seconds s = int64_wrap (s * 1000000000)"

definition minutes :: "int \<Rightarrow> int" where
  \<comment> \<open>\<open>std::chrono::minutes(m)\<close> in clock ticks\<close>
  "minutes m = seconds (m * 60)"

text \<open>
  A \<open>double\<close> is a real number, positive infinity or NaN. Rounding and overflow of
  finite values are not modelled; the two special values are the ones a division by a
  zero capacity produces (\<open>x / 0.0\<close> is \<open>+inf\<close> for \<open>x > 0\<close> and NaN for \<open>x = 0\<close>).
  Every numerator in this program is an unsigned count or the constant \<open>1.0\<close>, and every
  scaling factor is a positive constant, so negative infinity does not arise.
\<close>

datatype dbl = Fin real | PosInf | NaN

fun ddiv :: "real \<Rightarrow> real \<Rightarrow> dbl" where
  "ddiv n d = (if d \<noteq> 0 then Fin (n / d) else if n = 0 then NaN else PosInf)"

fun dadd :: "dbl \<Rightarrow> dbl \<Rightarrow> dbl" where
  "dadd (Fin a) (Fin b) = Fin (a + b)"
| "dadd (Fin a) PosInf = PosInf"
| "dadd PosInf (Fin b) = PosInf"
| "dadd PosInf PosInf = PosInf"
| "dadd NaN y = NaN"
| "dadd x NaN = NaN"

fun dscale :: "dbl \<Rightarrow> real \<Rightarrow> dbl" where
  \<comment> \<open>multiplication by a positive finite constant\<close>
  "dscale (Fin a) c = Fin (a * c)"
| "dscale PosInf c = PosInf"
| "dscale NaN c = NaN"

fun dless :: "dbl \<Rightarrow> dbl \<Rightarrow> bool" where
  \<comment> \<open>\<open><\<close> on doubles: false whenever an operand is NaN\<close>
  "dless (Fin a) (Fin b) = (a < b)"
| "dless (Fin a) PosInf = True"
| "dless _ _ = False"

fun dle :: "dbl \<Rightarrow> dbl \<Rightarrow> bool" where
  \<comment> \<open>\<open><=\<close> on doubles: false whenever an operand is NaN\<close>
  "dle (Fin a) (Fin b) = (a \<le> b)"
| "dle (Fin a) PosInf = True"
| "dle PosInf PosInf = True"
| "dle _ _ = False"

definition u32_to_double :: "u32 \<Rightarrow> real" where
  \<comment> \<open>\<open>static_cast<double>\<close> of a \<open>uint32_t\<close>: exact\<close>
  "u32_to_double w = real (unat w)"


section \<open>ConnectionManager\<close>

subsection \<open>Data (connection\_manager.hpp)\<close>

record ConnectionInfo =
  connection_id :: string
  user_id :: string
  ip_address :: string
  connected_at :: time_point
  last_activity :: time_point
  is_authenticated :: bool
  bytes_sent :: u64
  bytes_received :: u64

text \<open>
  The members \<open>max_connections_\<close>, \<open>current_connections_\<close>, \<open>connections_\<close> of the
  agent and \<open>metrics_\<close> of its base class. The registry
  \<open>std::unordered_map<std::string, std::unique_ptr<ConnectionInfo>>\<close> is an association
  list with one entry per key; the list order stands for the (unspecified) iteration
  order of the hash table.
\<close>

record ConnectionManagerAgent =
  cm_max_connections :: u32
  cm_current_connections :: u32
  cm_connections :: "(string \<times> ConnectionInfo) list"
  cm_metrics :: "string \<rightharpoonup> dbl"

definition new_ConnectionManagerAgent :: "u32 \<Rightarrow> ConnectionManagerAgent" where
  \<comment> \<open>the constructor\<close>
  "new_ConnectionManagerAgent max_connections =
     \<lparr>cm_max_connections = max_connections, cm_current_connections = 0,
      cm_connections = [], cm_metrics = Map.empty\<rparr>"

definition registry_ok :: "ConnectionManagerAgent \<Rightarrow> bool" where
  \<comment> \<open>the representation invariant of the hash table: no key occurs twice\<close>
  "registry_ok a = distinct (map fst (cm_connections a))"

subsection \<open>Operations (connection\_manager.cpp, base\_agent.cpp)\<close>

definition update_metric :: "ConnectionManagerAgent \<Rightarrow> string \<Rightarrow> dbl \<Rightarrow> ConnectionManagerAgent" where
  "update_metric a key v = a\<lparr>cm_metrics := (cm_metrics a)(key \<mapsto> v)\<rparr>"

definition count_authenticated :: "(string \<times> ConnectionInfo) list \<Rightarrow> nat" where
  \<comment> \<open>the \<open>std::count_if\<close> over the registry\<close>
  "count_authenticated cs = length (filter (\<lambda>p. is_authenticated (snd p)) cs)"

definition handle_new_connection ::
  "ConnectionManagerAgent \<Rightarrow> time_point \<Rightarrow> string \<Rightarrow> string \<Rightarrow> bool \<times> ConnectionManagerAgent" where
  "handle_new_connection a now cid ip =
     (if cm_max_connections a \<le> cm_current_connections a
      then (False, update_metric a ''connection_rejected'' (Fin 1))
      else
        let connection_info =
              \<lparr>connection_id = cid, user_id = [], ip_address = ip,
               connected_at = now, last_activity = now, is_authenticated = False,
               bytes_sent = 0, bytes_received = 0\<rparr>;
            a1 = a\<lparr>cm_connections := AList.update cid connection_info (cm_connections a),
                   cm_current_connections := cm_current_connections a + 1\<rparr>;
            a2 = update_metric a1 ''connections_total''
                   (Fin (u32_to_double (cm_current_connections a1)));
            a3 = update_metric a2 ''connection_accepted'' (Fin 1)
        in (True, a3))"

definition handle_disconnection :: "ConnectionManagerAgent \<Rightarrow> string \<Rightarrow> ConnectionManagerAgent" where
  "handle_disconnection a cid =
     (case map_of (cm_connections a) cid of
        None \<Rightarrow> a
      | Some info \<Rightarrow>
          let a1 = a\<lparr>cm_connections := AList.delete cid (cm_connections a),
                     cm_current_connections := cm_current_connections a - 1\<rparr>;
              a2 = update_metric a1 ''connections_total''
                     (Fin (u32_to_double (cm_current_connections a1)))
          in update_metric a2 ''connection_disconnected'' (Fin 1))"

definition authenticate_connection ::
  "ConnectionManagerAgent \<Rightarrow> string \<Rightarrow> string \<Rightarrow> ConnectionManagerAgent" where
  "authenticate_connection a cid uid =
     (case map_of (cm_connections a) cid of
        None \<Rightarrow> a
      | Some info \<Rightarrow>
          let a1 = a\<lparr>cm_connections :=
                       AList.map_entry cid (\<lambda>i. i\<lparr>user_id := uid, is_authenticated := True\<rparr>)
                         (cm_connections a)\<rparr>
          in update_metric a1 ''authenticated_connections''
               (Fin (real (count_authenticated (cm_connections a1)))))"

definition update_activity :: "ConnectionManagerAgent \<Rightarrow> time_point \<Rightarrow> string \<Rightarrow> ConnectionManagerAgent" where
  "update_activity a now cid =
     (case map_of (cm_connections a) cid of
        None \<Rightarrow> a
      | Some info \<Rightarrow>
          a\<lparr>cm_connections :=
              AList.map_entry cid (\<lambda>i. i\<lparr>last_activity := now\<rparr>) (cm_connections a)\<rparr>)"

definition get_connection_stats :: "ConnectionManagerAgent \<Rightarrow> (string \<rightharpoonup> dbl)" where
  "get_connection_stats a =
     (let total_connections = cm_current_connections a;
          authenticated_connections = (word_of_nat (count_authenticated (cm_connections a)) :: u32)
      in [''total_connections'' \<mapsto> Fin (u32_to_double total_connections),
          ''authenticated_connections'' \<mapsto> Fin (u32_to_double authenticated_connections),
          ''max_connections'' \<mapsto> Fin (u32_to_double (cm_max_connections a)),
          ''connection_utilization'' \<mapsto>
             ddiv (u32_to_double total_connections) (u32_to_double (cm_max_connections a))])"

definition get_connection_info :: "ConnectionManagerAgent \<Rightarrow> string \<Rightarrow> ConnectionInfo option" where
  "get_connection_info a cid = map_of (cm_connections a) cid"

definition inactive :: "time_point \<Rightarrow> int \<Rightarrow> string \<times> ConnectionInfo \<Rightarrow> bool" where
  \<comment> \<open>the test of the collecting loop: \<open>now - info->last_activity > timeout\<close>, the timeout
      converted to nanoseconds\<close>
  "inactive now timeout p = (now - last_activity (snd p) > seconds timeout)"

definition cleanup_inactive_connections ::
  "ConnectionManagerAgent \<Rightarrow> time_point \<Rightarrow> int \<Rightarrow> ConnectionManagerAgent" where
  "cleanup_inactive_connections a now timeout =
     (let to_remove = map fst (filter (inactive now timeout) (cm_connections a));
          a1 = fold (\<lambda>cid s. handle_disconnection s cid) to_remove a
      in if to_remove \<noteq> [] then update_metric a1 ''connections_cleaned'' (Fin (real (length to_remove)))
         else a1)"


section \<open>LoadBalancer\<close>

subsection \<open>Data (load\_balancer.hpp)\<close>

record ServerNode =
  node_id :: string
  host :: string
  port :: u16
  current_connections :: u32
  max_connections :: u32
  cpu_usage :: dbl
  memory_usage :: dbl
  is_healthy :: bool
  last_health_check :: time_point

text \<open>
  The score is computed exactly here. The compiled code rounds the constants and every
  operation to \<open>double\<close>, so a score within a rounding error of a threshold can
  compare differently there: with 3 of 4 connections, \<open>cpu = 0.6875\<close> and \<open>mem = 1.0\<close>
  the exact score is \<open>4/5\<close>, the rounded one lies just below the constant \<open>0.8\<close>.
\<close>

definition get_load_score :: "ServerNode \<Rightarrow> dbl" where
  "get_load_score n =
     (let connection_ratio =
            ddiv (u32_to_double (current_connections n)) (u32_to_double (max_connections n));
          cpu_weight = dscale (cpu_usage n) 0.4;
          memory_weight = dscale (memory_usage n) 0.3;
          connection_weight = dscale connection_ratio 0.3
      in dadd (dadd cpu_weight memory_weight) connection_weight)"

definition can_accept_connection :: "ServerNode \<Rightarrow> bool" where
  "can_accept_connection n =
     (is_healthy n \<and> current_connections n < max_connections n \<and>
      dless (get_load_score n) (Fin 0.8))"

datatype LoadBalancingStrategy =
  ROUND_ROBIN | LEAST_CONNECTIONS | LEAST_LOAD | WEIGHTED_ROUND_ROBIN | IP_HASH

text \<open>
  The members \<open>strategy_\<close>, \<open>servers_\<close>, \<open>round_robin_index_\<close>, \<open>running_\<close> and
  \<open>connection_to_server_\<close>. The node vector is a list in registration order; the
  assignment table is never iterated, so it is a map.
\<close>

record LoadBalancer =
  lb_strategy :: LoadBalancingStrategy
  lb_servers :: "ServerNode list"
  lb_round_robin_index :: u32
  lb_running :: bool
  lb_connection_to_server :: "string \<rightharpoonup> string"

definition new_LoadBalancer :: "LoadBalancingStrategy \<Rightarrow> LoadBalancer" where
  \<comment> \<open>the constructor\<close>
  "new_LoadBalancer s =
     \<lparr>lb_strategy = s, lb_servers = [], lb_round_robin_index = 0, lb_running = False,
      lb_connection_to_server = Map.empty\<rparr>"

subsection \<open>Node registry (load\_balancer.cpp)\<close>

fun find_server :: "string \<Rightarrow> ServerNode list \<Rightarrow> nat option" where
  \<comment> \<open>\<open>std::find_if\<close> with the predicate \<open>server->id == server_id\<close>: the position of the
      first match, \<open>None\<close> for \<open>end()\<close>\<close>
  "find_server sid [] = None"
| "find_server sid (s # ss) =
     (if node_id s = sid then Some 0 else map_option Suc (find_server sid ss))"

definition add_server ::
  "LoadBalancer \<Rightarrow> time_point \<Rightarrow> string \<Rightarrow> string \<Rightarrow> u16 \<Rightarrow> u32 \<Rightarrow> LoadBalancer" where
  "add_server lb now sid h p maxc =
     lb\<lparr>lb_servers := lb_servers lb @
          [\<lparr>node_id = sid, host = h, port = p, current_connections = 0,
            max_connections = maxc, cpu_usage = Fin 0, memory_usage = Fin 0,
            is_healthy = True, last_health_check = now\<rparr>]\<rparr>"

definition remove_server :: "LoadBalancer \<Rightarrow> string \<Rightarrow> LoadBalancer" where
  "remove_server lb sid =
     (case find_server sid (lb_servers lb) of
        None \<Rightarrow> lb
      | Some i \<Rightarrow> lb\<lparr>lb_servers := take i (lb_servers lb) @ drop (Suc i) (lb_servers lb)\<rparr>)"

definition update_server_status ::
  "LoadBalancer \<Rightarrow> time_point \<Rightarrow> string \<Rightarrow> dbl \<Rightarrow> dbl \<Rightarrow> bool \<Rightarrow> LoadBalancer" where
  "update_server_status lb now sid cpu mem healthy =
     (case find_server sid (lb_servers lb) of
        None \<Rightarrow> lb
      | Some i \<Rightarrow>
          lb\<lparr>lb_servers := (lb_servers lb)
               [i := (lb_servers lb ! i)\<lparr>cpu_usage := cpu, memory_usage := mem,
                                         is_healthy := healthy, last_health_check := now\<rparr>]\<rparr>)"

definition set_strategy :: "LoadBalancer \<Rightarrow> LoadBalancingStrategy \<Rightarrow> LoadBalancer" where
  "set_strategy lb s = lb\<lparr>lb_strategy := s\<rparr>"

definition perform_health_check :: "LoadBalancer \<Rightarrow> time_point \<Rightarrow> LoadBalancer" where
  "perform_health_check lb now =
     lb\<lparr>lb_servers :=
          map (\<lambda>s. if now - last_health_check s > minutes 5 then s\<lparr>is_healthy := False\<rparr> else s)
            (lb_servers lb)\<rparr>"

subsection \<open>Selection (load\_balancer.cpp)\<close>

fun min_element_from :: "('a \<Rightarrow> 'a \<Rightarrow> bool) \<Rightarrow> 'a \<Rightarrow> 'a list \<Rightarrow> 'a" where
  \<comment> \<open>the loop of \<open>std::min_element\<close>: the candidate is replaced by a later element only
      when that element compares less\<close>
  "min_element_from cmp smallest [] = smallest"
| "min_element_from cmp smallest (x # xs) =
     min_element_from cmp (if cmp x smallest then x else smallest) xs"

definition select_round_robin :: "LoadBalancer \<Rightarrow> string \<times> LoadBalancer" where
  "select_round_robin lb =
     (if lb_servers lb = [] then ([], lb)
      else
        let index = unat (lb_round_robin_index lb) mod length (lb_servers lb);
            lb' = lb\<lparr>lb_round_robin_index := lb_round_robin_index lb + 1\<rparr>
        in (node_id (lb_servers lb ! index), lb'))"

definition select_least_connections :: "LoadBalancer \<Rightarrow> string" where
  "select_least_connections lb =
     (case lb_servers lb of
        [] \<Rightarrow> []
      | s # ss \<Rightarrow>
          node_id (min_element_from
            (\<lambda>a b. current_connections a < current_connections b) s ss))"

definition select_least_load :: "LoadBalancer \<Rightarrow> string" where
  "select_least_load lb =
     (case lb_servers lb of
        [] \<Rightarrow> []
      | s # ss \<Rightarrow>
          node_id (min_element_from
            (\<lambda>a b. dless (get_load_score a) (get_load_score b)) s ss))"

fun weighted_pick :: "dbl \<Rightarrow> dbl \<Rightarrow> ServerNode list \<Rightarrow> string option" where
  \<comment> \<open>the accumulating loop of the weighted draw; the weight of a node is
      \<open>1.0 / max_connections\<close>\<close>
  "weighted_pick random_value current_weight [] = None"
| "weighted_pick random_value current_weight (s # ss) =
     (let cw = dadd current_weight (ddiv 1 (u32_to_double (max_connections s)))
      in if dle random_value cw then Some (node_id s)
         else weighted_pick random_value cw ss)"

definition select_weighted_round_robin :: "LoadBalancer \<Rightarrow> dbl \<Rightarrow> string" where
  \<comment> \<open>\<open>random_value\<close> is the draw \<open>dis(gen)\<close> from the generator, an input here\<close>
  "select_weighted_round_robin lb random_value =
     (if lb_servers lb = [] then []
      else case weighted_pick random_value (Fin 0) (lb_servers lb) of
             Some sid \<Rightarrow> sid
           | None \<Rightarrow> node_id (last (lb_servers lb)))"

definition select_ip_hash :: "(string \<Rightarrow> nat) \<Rightarrow> LoadBalancer \<Rightarrow> string \<Rightarrow> string" where
  \<comment> \<open>\<open>hasher\<close> is \<open>std::hash<std::string>\<close>, a function fixed for the run of the
      program; the index is narrowed to \<open>uint32_t\<close>\<close>
  "select_ip_hash hasher lb client_ip =
     (if lb_servers lb = [] then []
      else
        let hash_value = hasher client_ip;
            index = (hash_value mod length (lb_servers lb)) mod 2 ^ 32
        in node_id (lb_servers lb ! index))"

definition select_server ::
  "(string \<Rightarrow> nat) \<Rightarrow> dbl \<Rightarrow> LoadBalancer \<Rightarrow> string \<Rightarrow> string \<times> LoadBalancer" where
  \<comment> \<open>the empty string is the sentinel for "no server"\<close>
  "select_server hasher random_value lb client_ip =
     (if lb_servers lb = [] then ([], lb)
      else
        let healthy_servers = filter is_healthy (lb_servers lb)
        in if healthy_servers = [] then ([], lb)
           else (case lb_strategy lb of
                   ROUND_ROBIN \<Rightarrow> select_round_robin lb
                 | LEAST_CONNECTIONS \<Rightarrow> (select_least_connections lb, lb)
                 | LEAST_LOAD \<Rightarrow> (select_least_load lb, lb)
                 | WEIGHTED_ROUND_ROBIN \<Rightarrow> (select_weighted_round_robin lb random_value, lb)
                 | IP_HASH \<Rightarrow> (select_ip_hash hasher lb client_ip, lb)))"

subsection \<open>Assignment bookkeeping (load\_balancer.cpp)\<close>

definition assign_connection :: "LoadBalancer \<Rightarrow> string \<Rightarrow> string \<Rightarrow> bool \<times> LoadBalancer" where
  "assign_connection lb sid cid =
     (case find_server sid (lb_servers lb) of
        None \<Rightarrow> (False, lb)
      | Some i \<Rightarrow>
          let server = lb_servers lb ! i
          in if \<not> can_accept_connection server then (False, lb)
             else (True,
               lb\<lparr>lb_servers := (lb_servers lb)
                    [i := server\<lparr>current_connections := current_connections server + 1\<rparr>],
                  lb_connection_to_server := (lb_connection_to_server lb)(cid \<mapsto> sid)\<rparr>))"

definition release_connection :: "LoadBalancer \<Rightarrow> string \<Rightarrow> string \<Rightarrow> LoadBalancer" where
  "release_connection lb sid cid =
     (let lb1 =
            (case find_server sid (lb_servers lb) of
               None \<Rightarrow> lb
             | Some i \<Rightarrow>
                 let server = lb_servers lb ! i
                 in lb\<lparr>lb_servers := (lb_servers lb)
                      [i := server\<lparr>current_connections := current_connections server - 1\<rparr>]\<rparr>)
      in lb1\<lparr>lb_connection_to_server := (lb_connection_to_server lb1)(cid := None)\<rparr>)"

definition get_server :: "LoadBalancer \<Rightarrow> string \<Rightarrow> ServerNode option" where
  "get_server lb sid = map_option (\<lambda>i. lb_servers lb ! i) (find_server sid (lb_servers lb))"


section \<open>Sequences of operations and reference states\<close>

text \<open>
  The node a server id denotes is the one \<open>std::find_if\<close> reaches: the first node
  registered under that id (\<open>add_server\<close> does not refuse an id already in use).
\<close>

definition registered_at :: "string \<Rightarrow> ServerNode list \<Rightarrow> nat \<Rightarrow> bool" where
  "registered_at sid ss i =
     (i < length ss \<and> node_id (ss ! i) = sid \<and> sid \<notin> node_id ` set (take i ss))"

text \<open>The calls a client of the connection manager can make, with the clock reading of each.\<close>

datatype cm_op =
    Admit time_point string string
  | Remove string
  | Authenticate string string
  | Touch time_point string
  | Sweep time_point int

fun apply_op :: "ConnectionManagerAgent \<Rightarrow> cm_op \<Rightarrow> ConnectionManagerAgent" where
  "apply_op a (Admit now cid ip) = snd (handle_new_connection a now cid ip)"
| "apply_op a (Remove cid) = handle_disconnection a cid"
| "apply_op a (Authenticate cid uid) = authenticate_connection a cid uid"
| "apply_op a (Touch now cid) = update_activity a now cid"
| "apply_op a (Sweep now timeout) = cleanup_inactive_connections a now timeout"

definition run_ops :: "ConnectionManagerAgent \<Rightarrow> cm_op list \<Rightarrow> ConnectionManagerAgent" where
  "run_ops a ops = foldl apply_op a ops"

text \<open>
  The admitted counter agrees with the registry size; a sequence of calls admits only fresh
  ids when no admission names an id that is live at that point.
\<close>

definition counter_matches :: "ConnectionManagerAgent \<Rightarrow> bool" where
  "counter_matches a = (unat (cm_current_connections a) = length (cm_connections a))"

fun admits_only_fresh :: "ConnectionManagerAgent \<Rightarrow> cm_op list \<Rightarrow> bool" where
  "admits_only_fresh a [] = True"
| "admits_only_fresh a (op # ops) =
     ((case op of Admit now cid ip \<Rightarrow> get_connection_info a cid = None | _ \<Rightarrow> True) \<and>
      admits_only_fresh (apply_op a op) ops)"

text \<open>A manager with capacity 100 (as in the unit tests) and one connection admitted at time 10.\<close>

definition cm_one :: ConnectionManagerAgent where
  "cm_one = snd (handle_new_connection (new_ConnectionManagerAgent 100) 10 ''c1'' ''127.0.0.1'')"

definition cm_one_auth :: ConnectionManagerAgent where
  "cm_one_auth = authenticate_connection cm_one ''c1'' ''u1''"

text \<open>A balancer with one node of capacity 1, before and after its only slot is assigned.\<close>

definition lb_one_node :: LoadBalancer where
  "lb_one_node = add_server (new_LoadBalancer LEAST_LOAD) 0 ''s1'' ''10.0.0.1'' 7000 1"

definition lb_one_assigned :: LoadBalancer where
  "lb_one_assigned = snd (assign_connection lb_one_node ''s1'' ''c1'')"

text \<open>
  A balancer with two nodes of capacity 1000, the first reported unhealthy through
  \<open>update_server_status\<close>, the second healthy.
\<close>

definition lb_two_nodes :: "LoadBalancingStrategy \<Rightarrow> LoadBalancer" where
  "lb_two_nodes strat =
     update_server_status
       (add_server (add_server (new_LoadBalancer strat) 0 ''s1'' ''10.0.0.1'' 7000 1000)
          0 ''s2'' ''10.0.0.2'' 7000 1000)
       1 ''s1'' (Fin 0) (Fin 0) False"


section \<open>Facts about the model\<close>

lemmas cm_defs =
  new_ConnectionManagerAgent_def handle_new_connection_def handle_disconnection_def
  authenticate_connection_def update_activity_def cleanup_inactive_connections_def
  get_connection_info_def get_connection_stats_def update_metric_def count_authenticated_def
  inactive_def seconds_def int64_wrap_def u32_to_double_def

lemmas lb_defs =
  new_LoadBalancer_def add_server_def update_server_status_def set_strategy_def
  select_server_def select_round_robin_def select_least_connections_def select_least_load_def
  select_weighted_round_robin_def select_ip_hash_def assign_connection_def
  release_connection_def can_accept_connection_def get_load_score_def u32_to_double_def

lemmas u32_eval =
  word_le_nat_alt word_less_nat_alt unsigned_minus_1_eq_mask mask_eq_exp_minus_1

subsection \<open>Looking a node up by id\<close>

lemma find_server_None_iff: "find_server sid ss = None \<longleftrightarrow> sid \<notin> node_id ` set ss"
  by (induction ss) auto

lemma find_server_Some_iff: "find_server sid ss = Some i \<longleftrightarrow> registered_at sid ss i"
proof (induction ss arbitrary: i)
  case Nil
  show ?case by (simp add: registered_at_def)
next
  case (Cons s ss)
  show ?case
  proof (cases i)
    case 0
    then show ?thesis by (auto simp: registered_at_def)
  next
    case (Suc j)
    with Cons [of j] show ?thesis by (auto simp: registered_at_def)
  qed
qed

lemma u32_succ_below: "(c :: u32) < m \<Longrightarrow> unat (c + 1) = unat c + 1"
proof -
  assume "c < m"
  then have "unat c < unat m" by (simp add: word_less_nat_alt)
  moreover have "unat m < 2 ^ 32" using unsigned_less [of m] by simp
  ultimately have "unat c + 1 < 2 ^ 32" by simp
  then show ?thesis by (simp add: unat_word_ariths)
qed

lemma lb_one_node_eval:
  "lb_one_node =
     \<lparr>lb_strategy = LEAST_LOAD,
      lb_servers = [\<lparr>node_id = ''s1'', host = ''10.0.0.1'', port = 7000, current_connections = 0,
                     max_connections = 1, cpu_usage = Fin 0, memory_usage = Fin 0,
                     is_healthy = True, last_health_check = 0\<rparr>],
      lb_round_robin_index = 0, lb_running = False, lb_connection_to_server = Map.empty\<rparr>"
  by (simp add: lb_one_node_def new_LoadBalancer_def add_server_def)

lemma lb_one_assigned_eval:
  "lb_one_assigned =
     \<lparr>lb_strategy = LEAST_LOAD,
      lb_servers = [\<lparr>node_id = ''s1'', host = ''10.0.0.1'', port = 7000, current_connections = 1,
                     max_connections = 1, cpu_usage = Fin 0, memory_usage = Fin 0,
                     is_healthy = True, last_health_check = 0\<rparr>],
      lb_round_robin_index = 0, lb_running = False,
      lb_connection_to_server = [''c1'' \<mapsto> ''s1'']\<rparr>"
  by (simp add: lb_one_assigned_def lb_one_node_eval assign_connection_def
      can_accept_connection_def get_load_score_def u32_to_double_def)


lemma cm_one_eval:
  "cm_one =
     \<lparr>cm_max_connections = 100, cm_current_connections = 1,
      cm_connections =
        [(''c1'', \<lparr>connection_id = ''c1'', user_id = [], ip_address = ''127.0.0.1'',
                  connected_at = 10, last_activity = 10, is_authenticated = False,
                  bytes_sent = 0, bytes_received = 0\<rparr>)],
      cm_metrics = [''connections_total'' \<mapsto> Fin 1, ''connection_accepted'' \<mapsto> Fin 1]\<rparr>"
  by (simp add: cm_one_def cm_defs u32_eval Let_def)

lemma cm_one_auth_eval:
  "cm_one_auth =
     \<lparr>cm_max_connections = 100, cm_current_connections = 1,
      cm_connections =
        [(''c1'', \<lparr>connection_id = ''c1'', user_id = ''u1'', ip_address = ''127.0.0.1'',
                  connected_at = 10, last_activity = 10, is_authenticated = True,
                  bytes_sent = 0, bytes_received = 0\<rparr>)],
      cm_metrics = [''connections_total'' \<mapsto> Fin 1, ''connection_accepted'' \<mapsto> Fin 1,
                    ''authenticated_connections'' \<mapsto> Fin 1]\<rparr>"
  by (simp add: cm_one_auth_def cm_one_eval authenticate_connection_def update_metric_def
      count_authenticated_def Let_def)

lemma lb_two_nodes_eval:
  "lb_two_nodes strat =
     \<lparr>lb_strategy = strat,
      lb_servers =
        [\<lparr>node_id = ''s1'', host = ''10.0.0.1'', port = 7000, current_connections = 0,
          max_connections = 1000, cpu_usage = Fin 0, memory_usage = Fin 0,
          is_healthy = False, last_health_check = 1\<rparr>,
         \<lparr>node_id = ''s2'', host = ''10.0.0.2'', port = 7000, current_connections = 0,
          max_connections = 1000, cpu_usage = Fin 0, memory_usage = Fin 0,
          is_healthy = True, last_health_check = 0\<rparr>],
      lb_round_robin_index = 0, lb_running = False, lb_connection_to_server = Map.empty\<rparr>"
  by (simp add: lb_two_nodes_def new_LoadBalancer_def add_server_def update_server_status_def)

subsection \<open>Removing records\<close>

lemma handle_disconnection_unknown:
  "cid \<notin> fst ` set (cm_connections a) \<Longrightarrow> handle_disconnection a cid = a"
  by (simp add: handle_disconnection_def map_of_eq_None_iff [symmetric])

lemma handle_disconnection_connections:
  "cm_connections (handle_disconnection a cid) = filter (\<lambda>p. fst p \<noteq> cid) (cm_connections a)"
proof (cases "map_of (cm_connections a) cid")
  case None
  then have "cid \<notin> fst ` set (cm_connections a)" by (simp add: map_of_eq_None_iff)
  then have "filter (\<lambda>p. fst p \<noteq> cid) (cm_connections a) = cm_connections a"
    by (auto simp: filter_id_conv)
  with None show ?thesis by (simp add: handle_disconnection_def)
next
  case (Some info)
  have "AList.delete cid (cm_connections a) = filter (\<lambda>p. fst p \<noteq> cid) (cm_connections a)"
    by (auto simp: AList.delete_eq intro: filter_cong)
  with Some show ?thesis by (simp add: handle_disconnection_def update_metric_def Let_def)
qed

lemma handle_disconnection_counter:
  "cid \<in> fst ` set (cm_connections a) \<Longrightarrow>
   cm_current_connections (handle_disconnection a cid) = cm_current_connections a - 1"
proof -
  assume "cid \<in> fst ` set (cm_connections a)"
  then obtain info where "map_of (cm_connections a) cid = Some info"
    by (cases "map_of (cm_connections a) cid") (auto simp: map_of_eq_None_iff)
  then show ?thesis by (simp add: handle_disconnection_def update_metric_def Let_def)
qed

lemma handle_disconnection_max:
  "cm_max_connections (handle_disconnection a cid) = cm_max_connections a"
  by (simp add: handle_disconnection_def update_metric_def Let_def split: option.splits)

text \<open>The second phase of the sweep: the collected ids are distinct and live.\<close>

lemma fold_handle_disconnection:
  "distinct ks \<Longrightarrow> set ks \<subseteq> fst ` set (cm_connections a) \<Longrightarrow>
   cm_connections (fold (\<lambda>cid s. handle_disconnection s cid) ks a) =
     filter (\<lambda>p. fst p \<notin> set ks) (cm_connections a) \<and>
   cm_current_connections (fold (\<lambda>cid s. handle_disconnection s cid) ks a) =
     cm_current_connections a - word_of_nat (length ks) \<and>
   cm_max_connections (fold (\<lambda>cid s. handle_disconnection s cid) ks a) = cm_max_connections a"
proof (induction ks arbitrary: a)
  case Nil
  show ?case by simp
next
  case (Cons k ks)
  let ?a = "handle_disconnection a k"
  from Cons.prems have k: "k \<in> fst ` set (cm_connections a)" and d: "distinct ks"
    and nk: "k \<notin> set ks" and sub: "set ks \<subseteq> fst ` set (cm_connections a)"
    by auto
  have "set ks \<subseteq> fst ` set (cm_connections ?a)"
  proof
    fix x assume x: "x \<in> set ks"
    with sub obtain p where "p \<in> set (cm_connections a)" "fst p = x" by auto
    moreover from x nk have "x \<noteq> k" by auto
    ultimately show "x \<in> fst ` set (cm_connections ?a)"
      by (auto simp: handle_disconnection_connections intro!: image_eqI [where x = p])
  qed
  from Cons.IH [OF d this] show ?case
    by (simp add: handle_disconnection_connections handle_disconnection_counter [OF k]
        handle_disconnection_max conj_commute)
qed

lemma filter_keys_of_selected:
  "distinct (map fst xs) \<Longrightarrow>
   filter (\<lambda>p. fst p \<notin> set (map fst (filter P xs))) xs = filter (\<lambda>p. \<not> P p) xs"
proof (rule filter_cong [OF refl])
  fix p assume d: "distinct (map fst xs)" and p: "p \<in> set xs"
  from d have inj: "inj_on fst (set xs)" by (simp add: distinct_map)
  show "(fst p \<notin> set (map fst (filter P xs))) = (\<not> P p)"
  proof
    assume "fst p \<notin> set (map fst (filter P xs))"
    with p show "\<not> P p" by force
  next
    assume np: "\<not> P p"
    show "fst p \<notin> set (map fst (filter P xs))"
    proof
      assume "fst p \<in> set (map fst (filter P xs))"
      then obtain q where q: "q \<in> set xs" "P q" "fst q = fst p" by auto
      with inj p have "q = p" by (auto dest: inj_onD)
      with q np show False by simp
    qed
  qed
qed

lemma lookup_filter_iff:
  assumes "distinct (map fst xs)"
  shows "map_of (filter P xs) k = Some v \<longleftrightarrow> map_of xs k = Some v \<and> P (k, v)"
proof -
  from assms have "distinct (map fst (filter P xs))" by (rule distinct_map_filter)
  then have "map_of (filter P xs) k = Some v \<longleftrightarrow> (k, v) \<in> set (filter P xs)"
    by (rule map_of_eq_Some_iff)
  also have "\<dots> \<longleftrightarrow> (k, v) \<in> set xs \<and> P (k, v)" by simp
  also from assms have "(k, v) \<in> set xs \<longleftrightarrow> map_of xs k = Some v"
    by (rule map_of_eq_Some_iff [symmetric])
  finally show ?thesis .
qed

lemma cleanup_connections:
  assumes "registry_ok a"
  shows "cm_connections (cleanup_inactive_connections a now timeout) =
           filter (\<lambda>p. \<not> inactive now timeout p) (cm_connections a)"
    and "cm_current_connections (cleanup_inactive_connections a now timeout) =
           cm_current_connections a -
             word_of_nat (length (filter (inactive now timeout) (cm_connections a)))"
    and "cm_max_connections (cleanup_inactive_connections a now timeout) = cm_max_connections a"
proof -
  let ?ks = "map fst (filter (inactive now timeout) (cm_connections a))"
  let ?a1 = "fold (\<lambda>cid s. handle_disconnection s cid) ?ks a"
  from assms have d: "distinct (map fst (cm_connections a))" by (simp add: registry_ok_def)
  then have dk: "distinct ?ks" by (rule distinct_map_filter)
  have sub: "set ?ks \<subseteq> fst ` set (cm_connections a)" by auto
  note f = fold_handle_disconnection [OF dk sub]
  have conns: "cm_connections (cleanup_inactive_connections a now timeout) = cm_connections ?a1"
    and cnt: "cm_current_connections (cleanup_inactive_connections a now timeout) =
      cm_current_connections ?a1"
    and mx: "cm_max_connections (cleanup_inactive_connections a now timeout) =
      cm_max_connections ?a1"
    by (simp_all add: cleanup_inactive_connections_def Let_def update_metric_def)
  show "cm_connections (cleanup_inactive_connections a now timeout) =
           filter (\<lambda>p. \<not> inactive now timeout p) (cm_connections a)"
    using f filter_keys_of_selected [OF d, of "inactive now timeout"] by (simp add: conns)
  show "cm_current_connections (cleanup_inactive_connections a now timeout) =
           cm_current_connections a -
             word_of_nat (length (filter (inactive now timeout) (cm_connections a)))"
    using f by (simp add: cnt)
  show "cm_max_connections (cleanup_inactive_connections a now timeout) = cm_max_connections a"
    using f by (simp add: mx)
qed

lemma cleanup_lookup:
  assumes "registry_ok a"
  shows "get_connection_info (cleanup_inactive_connections a now timeout) cid =
            (case get_connection_info a cid of
               None \<Rightarrow> None
             | Some info \<Rightarrow>
                 if now - last_activity info > seconds timeout then None else Some info)"
proof -
  let ?kept = "filter (\<lambda>p. \<not> inactive now timeout p) (cm_connections a)"
  from assms have d: "distinct (map fst (cm_connections a))" by (simp add: registry_ok_def)
  note c1 = cleanup_connections(1) [OF assms, of now timeout]
  have l: "map_of ?kept cid = Some v \<longleftrightarrow>
      map_of (cm_connections a) cid = Some v \<and> \<not> inactive now timeout (cid, v)" for v
    by (rule lookup_filter_iff [OF d])
  have "map_of ?kept cid =
      (case map_of (cm_connections a) cid of
         None \<Rightarrow> None
       | Some info \<Rightarrow> if inactive now timeout (cid, info) then None else Some info)"
  proof (cases "map_of ?kept cid")
    case None
    show ?thesis
    proof (cases "map_of (cm_connections a) cid")
      case n: None
      with None show ?thesis by simp
    next
      case (Some info)
      from None have "map_of ?kept cid \<noteq> Some info" by simp
      with Some l [of info] have "inactive now timeout (cid, info)" by blast
      with None Some show ?thesis by simp
    qed
  next
    case (Some v)
    with l [of v] have "map_of (cm_connections a) cid = Some v \<and> \<not> inactive now timeout (cid, v)"
      by blast
    with Some show ?thesis by simp
  qed
  then show ?thesis
    by (simp add: get_connection_info_def c1 inactive_def split: option.splits)
qed

subsection \<open>The registry keeps one record per id\<close>

lemma registry_ok_new: "registry_ok (new_ConnectionManagerAgent m)"
  by (simp add: registry_ok_def new_ConnectionManagerAgent_def)

lemma registry_ok_apply_op: "registry_ok a \<Longrightarrow> registry_ok (apply_op a op)"
proof (cases op)
  case (Admit now cid ip)
  assume "registry_ok a"
  then show ?thesis
    by (simp add: Admit registry_ok_def handle_new_connection_def update_metric_def Let_def
        distinct_update)
next
  case (Remove cid)
  assume "registry_ok a"
  then show ?thesis
    by (simp add: Remove registry_ok_def handle_disconnection_connections distinct_map_filter)
next
  case (Authenticate cid uid)
  assume "registry_ok a"
  then show ?thesis
    by (simp add: Authenticate registry_ok_def authenticate_connection_def update_metric_def
        Let_def distinct_map_entry split: option.splits)
next
  case (Touch now cid)
  assume "registry_ok a"
  then show ?thesis
    by (simp add: Touch registry_ok_def update_activity_def distinct_map_entry
        split: option.splits)
next
  case (Sweep now timeout)
  assume ok: "registry_ok a"
  then show ?thesis
    by (simp add: Sweep registry_ok_def cleanup_connections(1) [OF ok] distinct_map_filter)
qed

lemma registry_ok_run_ops: "registry_ok a \<Longrightarrow> registry_ok (run_ops a ops)"
  unfolding run_ops_def
  by (induction ops arbitrary: a) (simp_all add: registry_ok_apply_op)


subsection \<open>The admitted counter and the registry size\<close>

text \<open>
  Every operation keeps the counter equal to the number of records, as long as no admission
  names a live id; the counter never wraps on this path.
\<close>

lemma length_update_fresh:
  "map_of al k = None \<Longrightarrow> length (AList.update k v al) = Suc (length al)"
  by (induction al) (auto split: if_splits)

lemma length_map_entry: "length (AList.map_entry k f al) = length al"
  by (induction al) auto

lemma length_remove_key:
  "distinct (map fst xs) \<Longrightarrow> k \<in> fst ` set xs \<Longrightarrow>
   Suc (length (filter (\<lambda>p. fst p \<noteq> k) xs)) = length xs"
proof (induction xs)
  case Nil
  then show ?case by simp
next
  case (Cons x xs)
  show ?case
  proof (cases "fst x = k")
    case True
    with Cons.prems have "k \<notin> fst ` set xs" by auto
    then have "filter (\<lambda>p. fst p \<noteq> k) xs = xs" by (auto simp: filter_id_conv)
    with True show ?thesis by simp
  next
    case False
    with Cons show ?thesis by auto
  qed
qed

lemma u32_sub_count:
  "k \<le> unat (c :: u32) \<Longrightarrow> unat (c - word_of_nat k) = unat c - k"
proof -
  assume le: "k \<le> unat c"
  have "unat c < 2 ^ 32" using unsigned_less [of c] by simp
  with le have k: "unat (word_of_nat k :: u32) = k" by (simp add: unat_of_nat)
  with le have "(word_of_nat k :: u32) \<le> c" by (simp add: word_le_nat_alt)
  then show ?thesis by (simp add: unat_sub k)
qed

lemma counter_matches_admit:
  assumes "counter_matches a" and "get_connection_info a cid = None"
  shows "counter_matches (snd (handle_new_connection a now cid ip))"
proof (cases "cm_max_connections a \<le> cm_current_connections a")
  case True
  with assms show ?thesis
    by (simp add: handle_new_connection_def counter_matches_def update_metric_def)
next
  case False
  then have "cm_current_connections a < cm_max_connections a" by (simp add: not_le)
  then have "unat (cm_current_connections a + 1) = unat (cm_current_connections a) + 1"
    by (rule u32_succ_below)
  with False assms show ?thesis
    by (simp add: handle_new_connection_def counter_matches_def update_metric_def Let_def
        get_connection_info_def length_update_fresh)
qed

lemma counter_matches_remove:
  assumes "registry_ok a" and "counter_matches a"
  shows "counter_matches (handle_disconnection a cid)"
proof (cases "cid \<in> fst ` set (cm_connections a)")
  case False
  with assms show ?thesis by (simp add: handle_disconnection_unknown)
next
  case True
  from assms(1) have d: "distinct (map fst (cm_connections a))" by (simp add: registry_ok_def)
  note len = length_remove_key [OF d True]
  from True have "cm_connections a \<noteq> []" by auto
  with assms(2) have "unat (cm_current_connections a) \<noteq> 0" by (simp add: counter_matches_def)
  then have "cm_current_connections a \<noteq> 0" by (auto simp: unat_eq_0)
  then have "unat (cm_current_connections a - 1) = unat (cm_current_connections a) - 1"
    by (rule unat_minus_one)
  with len assms(2) show ?thesis
    by (simp add: counter_matches_def handle_disconnection_connections
        handle_disconnection_counter [OF True])
qed

lemma counter_matches_sweep:
  assumes "registry_ok a" and "counter_matches a"
  shows "counter_matches (cleanup_inactive_connections a now timeout)"
proof -
  let ?k = "length (filter (inactive now timeout) (cm_connections a))"
  have split: "?k + length (filter (\<lambda>p. \<not> inactive now timeout p) (cm_connections a)) =
      length (cm_connections a)"
    by (rule sum_length_filter_compl)
  with assms(2) have "?k \<le> unat (cm_current_connections a)"
    by (simp add: counter_matches_def)
  then have "unat (cm_current_connections a - word_of_nat ?k) = unat (cm_current_connections a) - ?k"
    by (rule u32_sub_count)
  with split assms(2) show ?thesis
    by (simp add: counter_matches_def cleanup_connections [OF assms(1)])
qed

lemma counter_matches_apply_op:
  assumes "registry_ok a" and "counter_matches a"
    and "case op of Admit now cid ip \<Rightarrow> get_connection_info a cid = None | _ \<Rightarrow> True"
  shows "counter_matches (apply_op a op)"
proof (cases op)
  case (Admit now cid ip)
  with assms show ?thesis by (simp add: counter_matches_admit)
next
  case (Remove cid)
  with assms show ?thesis by (simp add: counter_matches_remove)
next
  case (Authenticate cid uid)
  with assms(2) show ?thesis
    by (simp add: counter_matches_def authenticate_connection_def update_metric_def Let_def
        length_map_entry split: option.splits)
next
  case (Touch now cid)
  with assms(2) show ?thesis
    by (simp add: counter_matches_def update_activity_def length_map_entry split: option.splits)
next
  case (Sweep now timeout)
  with assms show ?thesis by (simp add: counter_matches_sweep)
qed

lemma counter_tracks_registry:
  "registry_ok a \<Longrightarrow> counter_matches a \<Longrightarrow> admits_only_fresh a ops \<Longrightarrow>
   counter_matches (run_ops a ops)"
  unfolding run_ops_def
proof (induction ops arbitrary: a)
  case Nil
  then show ?case by simp
next
  case (Cons op ops)
  from Cons.prems have "counter_matches (apply_op a op)"
    by (simp add: counter_matches_apply_op)
  moreover from Cons.prems have "registry_ok (apply_op a op)"
    by (simp add: registry_ok_apply_op)
  moreover from Cons.prems have "admits_only_fresh (apply_op a op) ops" by simp
  ultimately show ?case using Cons.IH by simp
qed

lemma counter_matches_new: "counter_matches (new_ConnectionManagerAgent m)"
  by (simp add: counter_matches_def new_ConnectionManagerAgent_def)

lemma utilization_is_fraction:
  "get_connection_stats a ''connection_utilization'' =
     Some (ddiv (real (unat (cm_current_connections a))) (real (unat (cm_max_connections a))))"
  by (simp add: get_connection_stats_def u32_to_double_def Let_def)

lemma handle_new_connection_ignores_liveness:
  assumes "cm_current_connections a < cm_max_connections a"
  shows "fst (handle_new_connection a now cid ip) \<and>
         cm_current_connections (snd (handle_new_connection a now cid ip)) =
           cm_current_connections a + 1 \<and>
         get_connection_info (snd (handle_new_connection a now cid ip)) cid =
           Some \<lparr>connection_id = cid, user_id = [], ip_address = ip,
                 connected_at = now, last_activity = now, is_authenticated = False,
                 bytes_sent = 0, bytes_received = 0\<rparr>"
proof -
  from assms have "\<not> cm_max_connections a \<le> cm_current_connections a" by (simp add: not_le)
  then show ?thesis
    by (simp add: handle_new_connection_def get_connection_info_def update_metric_def Let_def
        update_conv')
qed


section \<open>The load balancer's assignment bookkeeping\<close>

text \<open>
  C7. \<open>assign_connection\<close> checks \<open>can_accept_connection\<close> when it runs: it fails when
  no node is registered under the server id, and when the node's current-connection count
  has reached its maximum, whatever a selection returned before; on every failure the whole
  balancer state (all counters and the assignment map) is unchanged. On success exactly the
  node the id denotes has its counter incremented by one (without wrap-around), and the
  connection id is mapped to the server id.
\<close>

theorem assign_connection_revalidates:
  "(sid \<notin> node_id ` set (lb_servers lb) \<longrightarrow> assign_connection lb sid cid = (False, lb)) \<and>
   (\<forall>i. registered_at sid (lb_servers lb) i \<longrightarrow>
      (max_connections (lb_servers lb ! i) \<le> current_connections (lb_servers lb ! i) \<longrightarrow>
         assign_connection lb sid cid = (False, lb)) \<and>
      (\<not> can_accept_connection (lb_servers lb ! i) \<longrightarrow>
         assign_connection lb sid cid = (False, lb)) \<and>
      (can_accept_connection (lb_servers lb ! i) \<longrightarrow>
         assign_connection lb sid cid =
           (True, lb\<lparr>lb_servers := (lb_servers lb)
                      [i := (lb_servers lb ! i)
                         \<lparr>current_connections := current_connections (lb_servers lb ! i) + 1\<rparr>],
                    lb_connection_to_server := (lb_connection_to_server lb)(cid \<mapsto> sid)\<rparr>) \<and>
         unat (current_connections (lb_servers (snd (assign_connection lb sid cid)) ! i)) =
           unat (current_connections (lb_servers lb ! i)) + 1 \<and>
         (\<forall>j < length (lb_servers lb). j \<noteq> i \<longrightarrow>
            lb_servers (snd (assign_connection lb sid cid)) ! j = lb_servers lb ! j))) \<and>
   (\<not> fst (assign_connection lb sid cid) \<longrightarrow> snd (assign_connection lb sid cid) = lb)"
proof (intro conjI allI impI)
  assume "sid \<notin> node_id ` set (lb_servers lb)"
  then show "assign_connection lb sid cid = (False, lb)"
    by (simp add: assign_connection_def find_server_None_iff [symmetric])
next
  fix i assume r: "registered_at sid (lb_servers lb) i"
    and full: "max_connections (lb_servers lb ! i) \<le> current_connections (lb_servers lb ! i)"
  from full have "\<not> can_accept_connection (lb_servers lb ! i)"
    by (simp add: can_accept_connection_def not_less)
  with r show "assign_connection lb sid cid = (False, lb)"
    by (simp add: assign_connection_def find_server_Some_iff [symmetric])
next
  fix i assume r: "registered_at sid (lb_servers lb) i"
    and "\<not> can_accept_connection (lb_servers lb ! i)"
  then show "assign_connection lb sid cid = (False, lb)"
    by (simp add: assign_connection_def find_server_Some_iff [symmetric])
next
  fix i assume r: "registered_at sid (lb_servers lb) i"
    and ok: "can_accept_connection (lb_servers lb ! i)"
  then show eq: "assign_connection lb sid cid =
           (True, lb\<lparr>lb_servers := (lb_servers lb)
                      [i := (lb_servers lb ! i)
                         \<lparr>current_connections := current_connections (lb_servers lb ! i) + 1\<rparr>],
                    lb_connection_to_server := (lb_connection_to_server lb)(cid \<mapsto> sid)\<rparr>)"
    by (simp add: assign_connection_def find_server_Some_iff [symmetric] Let_def)
  from r have len: "i < length (lb_servers lb)" by (simp add: registered_at_def)
  from ok have "current_connections (lb_servers lb ! i) < max_connections (lb_servers lb ! i)"
    by (simp add: can_accept_connection_def)
  then have "unat (current_connections (lb_servers lb ! i) + 1) =
      unat (current_connections (lb_servers lb ! i)) + 1"
    by (rule u32_succ_below)
  with len show "unat (current_connections (lb_servers (snd (assign_connection lb sid cid)) ! i)) =
           unat (current_connections (lb_servers lb ! i)) + 1"
    by (simp add: eq)
  fix j assume "j < length (lb_servers lb)" "j \<noteq> i"
  then show "lb_servers (snd (assign_connection lb sid cid)) ! j = lb_servers lb ! j"
    by (simp add: eq)
next
  assume "\<not> fst (assign_connection lb sid cid)"
  then show "snd (assign_connection lb sid cid) = lb"
    by (auto simp: assign_connection_def Let_def split: option.splits if_splits)
qed

text \<open>
  On the one-node balancer: the first assignment succeeds and fills the node; the second is
  refused at \<open>current = max\<close> and changes nothing; an unknown server id is refused.
\<close>

theorem assign_connection_revalidates_witness:
  "assign_connection lb_one_node ''s1'' ''c1'' = (True, lb_one_assigned) \<and>
   unat (current_connections (lb_servers lb_one_assigned ! 0)) = 1 \<and>
   lb_connection_to_server lb_one_assigned ''c1'' = Some ''s1'' \<and>
   assign_connection lb_one_assigned ''s1'' ''c2'' = (False, lb_one_assigned) \<and>
   assign_connection lb_one_node ''s9'' ''c1'' = (False, lb_one_node)"
proof -
  have r0: "registered_at ''s1'' (lb_servers lb_one_node) 0"
    by (simp add: registered_at_def lb_one_node_eval)
  have ok: "can_accept_connection (lb_servers lb_one_node ! 0)"
    by (simp add: lb_one_node_eval can_accept_connection_def get_load_score_def u32_to_double_def)
  have r1: "registered_at ''s1'' (lb_servers lb_one_assigned) 0"
    by (simp add: registered_at_def lb_one_assigned_eval)
  have full: "max_connections (lb_servers lb_one_assigned ! 0)
      \<le> current_connections (lb_servers lb_one_assigned ! 0)"
    by (simp add: lb_one_assigned_eval)
  have unknown: "''s9'' \<notin> node_id ` set (lb_servers lb_one_node)"
    by (simp add: lb_one_node_eval)
  note first = assign_connection_revalidates [where lb = lb_one_node and sid = "''s1''" and cid = "''c1''"]
  note second = assign_connection_revalidates [where lb = lb_one_assigned and sid = "''s1''" and cid = "''c2''"]
  note third = assign_connection_revalidates [where lb = lb_one_node and sid = "''s9''" and cid = "''c1''"]
  from first r0 ok have a: "assign_connection lb_one_node ''s1'' ''c1'' =
      (True, lb_one_node\<lparr>lb_servers := (lb_servers lb_one_node)
                      [0 := (lb_servers lb_one_node ! 0)
                         \<lparr>current_connections := current_connections (lb_servers lb_one_node ! 0) + 1\<rparr>],
                    lb_connection_to_server := (lb_connection_to_server lb_one_node)(''c1'' \<mapsto> ''s1'')\<rparr>)"
    by blast
  have a': "assign_connection lb_one_node ''s1'' ''c1'' = (True, lb_one_assigned)"
    unfolding a by (simp add: lb_one_node_eval lb_one_assigned_eval)
  from second r1 full have b: "assign_connection lb_one_assigned ''s1'' ''c2'' = (False, lb_one_assigned)"
    by blast
  from third unknown have c: "assign_connection lb_one_node ''s9'' ''c1'' = (False, lb_one_node)"
    by blast
  show ?thesis
    using a' b c by (simp add: lb_one_assigned_eval)
qed


text \<open>
  C10. When the node a server id denotes has a current-connection counter of 0,
  \<open>release_connection\<close> with that server id and any connection id wraps the unsigned
  32-bit counter to \<open>4294967295\<close>: nothing guards the decrement. The node then refuses
  every assignment, since no capacity exceeds that count.
\<close>

theorem release_connection_wraps_at_zero:
  "registered_at sid (lb_servers lb) i \<Longrightarrow> current_connections (lb_servers lb ! i) = 0 \<Longrightarrow>
     unat (current_connections (lb_servers (release_connection lb sid cid) ! i)) = 4294967295 \<and>
     \<not> can_accept_connection (lb_servers (release_connection lb sid cid) ! i)"
proof -
  assume r: "registered_at sid (lb_servers lb) i"
    and z: "current_connections (lb_servers lb ! i) = 0"
  from r have f: "find_server sid (lb_servers lb) = Some i" by (simp add: find_server_Some_iff)
  from r have len: "i < length (lb_servers lb)" by (simp add: registered_at_def)
  from f len z have c: "current_connections (lb_servers (release_connection lb sid cid) ! i) = - 1"
    by (simp add: release_connection_def Let_def)
  have "\<not> (- 1 :: u32) < m" for m
    using word_n1_ge [of m] by (simp only: not_less)
  then show ?thesis
    by (simp add: c can_accept_connection_def unsigned_minus_1_eq_mask mask_eq_exp_minus_1)
qed

theorem release_connection_wraps_at_zero_witness:
  "registered_at ''s1'' (lb_servers lb_one_node) 0 \<and>
   current_connections (lb_servers lb_one_node ! 0) = 0 \<and>
   unat (current_connections (lb_servers (release_connection lb_one_node ''s1'' ''c7'') ! 0))
     = 4294967295 \<and>
   \<not> can_accept_connection (lb_servers (release_connection lb_one_node ''s1'' ''c7'') ! 0)"
proof -
  have r: "registered_at ''s1'' (lb_servers lb_one_node) 0"
    by (simp add: registered_at_def lb_one_node_eval)
  have z: "current_connections (lb_servers lb_one_node ! 0) = 0"
    by (simp add: lb_one_node_eval)
  from release_connection_wraps_at_zero [OF r z, of "''c7''"] r z show ?thesis by simp
qed

text \<open>
  C5, as stated, fails. On the balancer whose node \<open>s1\<close> holds the one connection \<open>c1\<close>:
  releasing the unassigned connection id \<open>ghost\<close> from \<open>s1\<close> still decrements the
  counter of \<open>s1\<close>, and releasing \<open>c1\<close> from the unregistered server id \<open>s9\<close> still
  drops the mapping of \<open>c1\<close>.
\<close>

theorem release_connection_not_noop_counterexample:
  "lb_connection_to_server lb_one_assigned ''ghost'' = None \<and>
   unat (current_connections (lb_servers lb_one_assigned ! 0)) = 1 \<and>
   unat (current_connections (lb_servers (release_connection lb_one_assigned ''s1'' ''ghost'') ! 0)) = 0 \<and>
   release_connection lb_one_assigned ''s1'' ''ghost'' \<noteq> lb_one_assigned \<and>
   ''s9'' \<notin> node_id ` set (lb_servers lb_one_assigned) \<and>
   lb_connection_to_server lb_one_assigned ''c1'' = Some ''s1'' \<and>
   lb_connection_to_server (release_connection lb_one_assigned ''s9'' ''c1'') ''c1'' = None \<and>
   release_connection lb_one_assigned ''s9'' ''c1'' \<noteq> lb_one_assigned"
proof -
  have a: "lb_servers (release_connection lb_one_assigned ''s1'' ''ghost'') \<noteq> lb_servers lb_one_assigned"
    by (simp add: lb_one_assigned_eval release_connection_def Let_def)
  have b: "lb_connection_to_server (release_connection lb_one_assigned ''s9'' ''c1'') ''c1''
      \<noteq> lb_connection_to_server lb_one_assigned ''c1''"
    by (simp add: lb_one_assigned_eval release_connection_def Let_def)
  from a have a': "release_connection lb_one_assigned ''s1'' ''ghost'' \<noteq> lb_one_assigned" by metis
  from b have b': "release_connection lb_one_assigned ''s9'' ''c1'' \<noteq> lb_one_assigned" by metis
  show ?thesis using a' b'
    by (simp add: lb_one_assigned_eval release_connection_def Let_def)
qed

text \<open>
  C5, amended. \<open>release_connection\<close> always drops the mapping of the connection id (which
  changes nothing when the id is not assigned) and leaves the strategy, the round-robin
  index and the running flag alone. When no node is registered under the server id, no
  node changes. When one is, the counter of the node the id denotes is decremented by one
  modulo \<open>2^32\<close>, whether or not the connection id is assigned, and no other node changes;
  from a non-zero counter this is a decrement by exactly one. The call is a no-op exactly
  when the server id is not registered and the connection id is not assigned.
\<close>

theorem release_connection_effect:
  "lb_connection_to_server (release_connection lb sid cid) = (lb_connection_to_server lb)(cid := None) \<and>
   lb_strategy (release_connection lb sid cid) = lb_strategy lb \<and>
   lb_round_robin_index (release_connection lb sid cid) = lb_round_robin_index lb \<and>
   lb_running (release_connection lb sid cid) = lb_running lb \<and>
   (sid \<notin> node_id ` set (lb_servers lb) \<longrightarrow>
      lb_servers (release_connection lb sid cid) = lb_servers lb) \<and>
   (\<forall>i. registered_at sid (lb_servers lb) i \<longrightarrow>
      lb_servers (release_connection lb sid cid) =
        (lb_servers lb)[i := (lb_servers lb ! i)
           \<lparr>current_connections := current_connections (lb_servers lb ! i) - 1\<rparr>] \<and>
      (current_connections (lb_servers lb ! i) \<noteq> 0 \<longrightarrow>
         unat (current_connections (lb_servers (release_connection lb sid cid) ! i)) + 1 =
           unat (current_connections (lb_servers lb ! i)))) \<and>
   (release_connection lb sid cid = lb \<longleftrightarrow>
      sid \<notin> node_id ` set (lb_servers lb) \<and> lb_connection_to_server lb cid = None)"
proof (intro conjI allI impI)
  show "lb_connection_to_server (release_connection lb sid cid) = (lb_connection_to_server lb)(cid := None)"
    by (simp add: release_connection_def Let_def split: option.splits)
  show "lb_strategy (release_connection lb sid cid) = lb_strategy lb"
    by (simp add: release_connection_def Let_def split: option.splits)
  show "lb_round_robin_index (release_connection lb sid cid) = lb_round_robin_index lb"
    by (simp add: release_connection_def Let_def split: option.splits)
  show "lb_running (release_connection lb sid cid) = lb_running lb"
    by (simp add: release_connection_def Let_def split: option.splits)
next
  assume "sid \<notin> node_id ` set (lb_servers lb)"
  then show "lb_servers (release_connection lb sid cid) = lb_servers lb"
    by (simp add: release_connection_def find_server_None_iff [symmetric])
next
  fix i assume r: "registered_at sid (lb_servers lb) i"
  then show eq: "lb_servers (release_connection lb sid cid) =
        (lb_servers lb)[i := (lb_servers lb ! i)
           \<lparr>current_connections := current_connections (lb_servers lb ! i) - 1\<rparr>]"
    by (simp add: release_connection_def find_server_Some_iff [symmetric] Let_def)
  assume nz: "current_connections (lb_servers lb ! i) \<noteq> 0"
  from r have len: "i < length (lb_servers lb)" by (simp add: registered_at_def)
  from nz have "unat (current_connections (lb_servers lb ! i)) \<noteq> 0"
    by (simp add: unat_eq_0)
  with len nz show "unat (current_connections (lb_servers (release_connection lb sid cid) ! i)) + 1 =
           unat (current_connections (lb_servers lb ! i))"
    by (simp add: eq unat_minus_one)
next
  show "release_connection lb sid cid = lb \<longleftrightarrow>
      sid \<notin> node_id ` set (lb_servers lb) \<and> lb_connection_to_server lb cid = None"
  proof
    assume "sid \<notin> node_id ` set (lb_servers lb) \<and> lb_connection_to_server lb cid = None"
    then have "find_server sid (lb_servers lb) = None" and n: "lb_connection_to_server lb cid = None"
      by (simp_all add: find_server_None_iff)
    moreover from n have "(lb_connection_to_server lb)(cid := None) = lb_connection_to_server lb"
      by (simp add: fun_upd_idem_iff)
    ultimately show "release_connection lb sid cid = lb"
      by (simp add: release_connection_def)
  next
    assume same: "release_connection lb sid cid = lb"
    have "lb_connection_to_server (release_connection lb sid cid) cid = None"
      by (simp add: release_connection_def Let_def split: option.splits)
    with same have unassigned: "lb_connection_to_server lb cid = None" by simp
    have "sid \<notin> node_id ` set (lb_servers lb)"
    proof (cases "find_server sid (lb_servers lb)")
      case None
      then show ?thesis by (simp add: find_server_None_iff)
    next
      case (Some i)
      then have "registered_at sid (lb_servers lb) i" by (simp add: find_server_Some_iff)
      then have "i < length (lb_servers lb)" by (simp add: registered_at_def)
      with Some have "current_connections (lb_servers (release_connection lb sid cid) ! i) =
          current_connections (lb_servers lb ! i) - 1"
        by (simp add: release_connection_def Let_def)
      with same have "current_connections (lb_servers lb ! i) =
          current_connections (lb_servers lb ! i) - 1"
        by simp
      then have False by simp
      then show ?thesis ..
    qed
    with unassigned
    show "sid \<notin> node_id ` set (lb_servers lb) \<and> lb_connection_to_server lb cid = None"
      by simp
  qed
qed

text \<open>
  Releasing \<open>c1\<close> from \<open>s1\<close> undoes the assignment; releasing an unassigned id from an
  unregistered server changes nothing.
\<close>

theorem release_connection_effect_witness:
  "unat (current_connections (lb_servers lb_one_assigned ! 0)) = 1 \<and>
   unat (current_connections (lb_servers (release_connection lb_one_assigned ''s1'' ''c1'') ! 0)) = 0 \<and>
   lb_connection_to_server (release_connection lb_one_assigned ''s1'' ''c1'') ''c1'' = None \<and>
   release_connection lb_one_node ''s9'' ''c9'' = lb_one_node"
proof -
  have r: "registered_at ''s1'' (lb_servers lb_one_assigned) 0"
    by (simp add: registered_at_def lb_one_assigned_eval)
  have nz: "current_connections (lb_servers lb_one_assigned ! 0) \<noteq> 0"
    by (simp add: lb_one_assigned_eval)
  have one: "unat (current_connections (lb_servers lb_one_assigned ! 0)) = 1"
    by (simp add: lb_one_assigned_eval)
  have unknown: "''s9'' \<notin> node_id ` set (lb_servers lb_one_node) \<and>
      lb_connection_to_server lb_one_node ''c9'' = None"
    by (simp add: lb_one_node_eval)
  note e1 = release_connection_effect [where lb = lb_one_assigned and sid = "''s1''" and cid = "''c1''"]
  note e2 = release_connection_effect [where lb = lb_one_node and sid = "''s9''" and cid = "''c9''"]
  from e1 r nz have "unat (current_connections
        (lb_servers (release_connection lb_one_assigned ''s1'' ''c1'') ! 0)) + 1 =
      unat (current_connections (lb_servers lb_one_assigned ! 0))"
    by blast
  with one have a: "unat (current_connections
        (lb_servers (release_connection lb_one_assigned ''s1'' ''c1'') ! 0)) = 0"
    by simp
  from e1 have b: "lb_connection_to_server (release_connection lb_one_assigned ''s1'' ''c1'') ''c1'' = None"
    by simp
  from e2 unknown have c: "release_connection lb_one_node ''s9'' ''c9'' = lb_one_node"
    by blast
  from one a b c show ?thesis by simp
qed


section \<open>Selection\<close>

text \<open>
  C9. Selection under \<open>IP_HASH\<close> is deterministic: two balancers with this strategy and
  the same node vector return the same server id for the same client IP (whatever the
  random draw and the other members are), the call itself leaves the balancer unchanged, and
  the id returned is that of the node at index hash(IP) mod node count whenever some node
  is healthy.
\<close>

theorem select_ip_hash_deterministic:
  assumes "lb_strategy lb1 = IP_HASH" and "lb_strategy lb2 = IP_HASH"
    and "lb_servers lb2 = lb_servers lb1"
  shows "fst (select_server hasher r2 lb2 ip) = fst (select_server hasher r1 lb1 ip) \<and>
         snd (select_server hasher r1 lb1 ip) = lb1 \<and>
         fst (select_server hasher r1 lb1 ip) =
           (if filter is_healthy (lb_servers lb1) = [] then []
            else node_id (lb_servers lb1 ! ((hasher ip mod length (lb_servers lb1)) mod 2 ^ 32)))"
  using assms by (auto simp: select_server_def select_ip_hash_def Let_def)

text \<open>
  With the string length as hash function, the 9-character address \<open>10.0.0.77\<close> is sent
  to the second of two nodes, also after a first call and with another random draw.
\<close>

theorem select_ip_hash_deterministic_witness:
  "lb_strategy (lb_two_nodes IP_HASH) = IP_HASH \<and>
   fst (select_server length (Fin 0) (lb_two_nodes IP_HASH) ''10.0.0.77'') = ''s2'' \<and>
   fst (select_server length PosInf
          (snd (select_server length (Fin 0) (lb_two_nodes IP_HASH) ''10.0.0.77''))
          ''10.0.0.77'') = ''s2''"
proof -
  have s: "lb_strategy (lb_two_nodes IP_HASH) = IP_HASH"
    by (simp add: lb_two_nodes_eval)
  note d = select_ip_hash_deterministic [OF s s refl,
      where hasher = length and ip = "''10.0.0.77''" and ?r1.0 = "Fin 0" and ?r2.0 = PosInf]
  from d have same: "snd (select_server length (Fin 0) (lb_two_nodes IP_HASH) ''10.0.0.77'') =
      lb_two_nodes IP_HASH"
    by blast
  from d have "fst (select_server length (Fin 0) (lb_two_nodes IP_HASH) ''10.0.0.77'') =
      (if filter is_healthy (lb_servers (lb_two_nodes IP_HASH)) = [] then []
       else node_id (lb_servers (lb_two_nodes IP_HASH) !
         ((length ''10.0.0.77'' mod length (lb_servers (lb_two_nodes IP_HASH))) mod 2 ^ 32)))"
    by blast
  then have first: "fst (select_server length (Fin 0) (lb_two_nodes IP_HASH) ''10.0.0.77'') = ''s2''"
    by (simp add: lb_two_nodes_eval mod_Suc)
  from d first have "fst (select_server length PosInf (lb_two_nodes IP_HASH) ''10.0.0.77'') = ''s2''"
    by simp
  with s first same show ?thesis by simp
qed

lemma select_server_none_healthy:
  "filter is_healthy (lb_servers lb) = [] \<Longrightarrow> select_server hasher r lb ip = ([], lb)"
  by (simp add: select_server_def)

text \<open>
  C3, at a failing input. Node \<open>s1\<close> was reported unhealthy and node \<open>s2\<close> is healthy,
  yet \<open>select_server\<close> returns \<open>s1\<close>: under \<open>ROUND_ROBIN\<close> at index 0, under
  \<open>IP_HASH\<close> for every client whose hash is even, and under \<open>WEIGHTED_ROUND_ROBIN\<close> for
  the draw 0. The list of healthy nodes is built and tested for emptiness only; each
  strategy then picks among all registered nodes.
\<close>

theorem select_server_returns_unhealthy_node:
  "map node_id (lb_servers (lb_two_nodes strat)) = [''s1'', ''s2''] \<and>
   map is_healthy (lb_servers (lb_two_nodes strat)) = [False, True] \<and>
   fst (select_server hasher r (lb_two_nodes ROUND_ROBIN) ip) = ''s1'' \<and>
   fst (select_server (\<lambda>s. 2 * hasher s) r (lb_two_nodes IP_HASH) ip) = ''s1'' \<and>
   fst (select_server hasher (Fin 0) (lb_two_nodes WEIGHTED_ROUND_ROBIN) ip) = ''s1''"
proof -
  have even: "2 * n mod Suc (Suc 0) = 0" for n :: nat
    by (metis mod_mult_self1_is_0 numeral_2_eq_2)
  show ?thesis
    by (simp add: lb_two_nodes_eval select_server_def select_round_robin_def select_ip_hash_def
        select_weighted_round_robin_def u32_to_double_def Let_def even)
qed

text \<open>
  C4, at a failing input. On the same two nodes, both without connections and without load,
  \<open>LEAST_CONNECTIONS\<close> and \<open>LEAST_LOAD\<close> return the unhealthy \<open>s1\<close>:
  \<open>std::min_element\<close> runs over all registered nodes and keeps the first of equal ones.
\<close>

theorem select_least_returns_unhealthy_node:
  "map node_id (lb_servers (lb_two_nodes strat)) = [''s1'', ''s2''] \<and>
   map is_healthy (lb_servers (lb_two_nodes strat)) = [False, True] \<and>
   map current_connections (lb_servers (lb_two_nodes strat)) = [0, 0] \<and>
   map get_load_score (lb_servers (lb_two_nodes strat)) = [Fin 0, Fin 0] \<and>
   fst (select_server hasher r (lb_two_nodes LEAST_CONNECTIONS) ip) = ''s1'' \<and>
   fst (select_server hasher r (lb_two_nodes LEAST_LOAD) ip) = ''s1''"
  by (simp add: lb_two_nodes_eval select_server_def select_least_connections_def
      select_least_load_def get_load_score_def u32_to_double_def Let_def)


section \<open>The connection registry\<close>

text \<open>
  C1, at a failing input. Connection \<open>c1\<close> is live and authenticated as \<open>u1\<close>, admitted
  at time 10. A second admission of \<open>c1\<close> at time 20 returns \<open>true\<close>, replaces the record
  by a fresh one (timestamps 20, no user, not authenticated) and increments the counter to 2.
\<close>

theorem duplicate_admission_overwrites:
  "cm_current_connections cm_one_auth = 1 \<and>
   get_connection_info cm_one_auth ''c1'' =
     Some \<lparr>connection_id = ''c1'', user_id = ''u1'', ip_address = ''127.0.0.1'',
           connected_at = 10, last_activity = 10, is_authenticated = True,
           bytes_sent = 0, bytes_received = 0\<rparr> \<and>
   fst (handle_new_connection cm_one_auth 20 ''c1'' ''127.0.0.1'') = True \<and>
   cm_current_connections (snd (handle_new_connection cm_one_auth 20 ''c1'' ''127.0.0.1'')) = 2 \<and>
   get_connection_info (snd (handle_new_connection cm_one_auth 20 ''c1'' ''127.0.0.1'')) ''c1'' =
     Some \<lparr>connection_id = ''c1'', user_id = [], ip_address = ''127.0.0.1'',
           connected_at = 20, last_activity = 20, is_authenticated = False,
           bytes_sent = 0, bytes_received = 0\<rparr>"
  by (simp add: cm_one_auth_eval handle_new_connection_def get_connection_info_def
      update_metric_def u32_eval Let_def)

text \<open>
  C2, at a failing input. With capacity 100, admitting \<open>c1\<close> twice leaves one record in
  the registry and a counter of 2; the reported utilization is 2/100. Removing \<open>c1\<close>
  afterwards empties the registry and leaves the counter at 1.
\<close>

theorem counter_exceeds_registry_after_duplicate:
  "cm_current_connections (run_ops (new_ConnectionManagerAgent 100)
      [Admit 10 ''c1'' ''127.0.0.1'', Admit 20 ''c1'' ''127.0.0.1'']) = 2 \<and>
   length (cm_connections (run_ops (new_ConnectionManagerAgent 100)
      [Admit 10 ''c1'' ''127.0.0.1'', Admit 20 ''c1'' ''127.0.0.1''])) = 1 \<and>
   get_connection_stats (run_ops (new_ConnectionManagerAgent 100)
      [Admit 10 ''c1'' ''127.0.0.1'', Admit 20 ''c1'' ''127.0.0.1'']) ''connection_utilization'' =
     Some (Fin (2 / 100)) \<and>
   cm_current_connections (run_ops (new_ConnectionManagerAgent 100)
      [Admit 10 ''c1'' ''127.0.0.1'', Admit 20 ''c1'' ''127.0.0.1'', Remove ''c1'']) = 1 \<and>
   cm_connections (run_ops (new_ConnectionManagerAgent 100)
      [Admit 10 ''c1'' ''127.0.0.1'', Admit 20 ''c1'' ''127.0.0.1'', Remove ''c1'']) = []"
  by (simp add: run_ops_def cm_defs u32_eval Let_def)

text \<open>
  C6, as stated, fails. The record of \<open>c1\<close> has \<open>last_activity = 10\<close>; a call of
  \<open>update_activity\<close> whose clock reads 5 leaves it at 5.
\<close>

theorem update_activity_regresses_counterexample:
  "map_option last_activity (get_connection_info cm_one ''c1'') = Some 10 \<and>
   map_option last_activity (get_connection_info (update_activity cm_one 5 ''c1'') ''c1'') = Some 5"
  by (simp add: cm_one_eval update_activity_def get_connection_info_def)

text \<open>
  C6, amended. For a live record, \<open>update_activity\<close> stores the clock reading of the call
  as \<open>last_activity\<close> and changes no other field; \<open>last_activity\<close> does not decrease
  exactly when that reading is not earlier than the stored value.
\<close>

theorem update_activity_sets_clock_reading:
  "get_connection_info a cid = Some info \<Longrightarrow>
     get_connection_info (update_activity a now cid) cid = Some (info\<lparr>last_activity := now\<rparr>) \<and>
     (last_activity info \<le> now \<longleftrightarrow>
        last_activity info \<le> last_activity (the (get_connection_info (update_activity a now cid) cid)))"
  by (simp add: update_activity_def get_connection_info_def map_of_map_entry)

theorem update_activity_sets_clock_reading_witness:
  "map_option last_activity (get_connection_info cm_one ''c1'') = Some 10 \<and>
   map_option last_activity (get_connection_info (update_activity cm_one 25 ''c1'') ''c1'') = Some 25 \<and>
   map_option connected_at (get_connection_info (update_activity cm_one 25 ''c1'') ''c1'') = Some 10"
proof -
  have live: "get_connection_info cm_one ''c1'' =
      Some \<lparr>connection_id = ''c1'', user_id = [], ip_address = ''127.0.0.1'',
            connected_at = 10, last_activity = 10, is_authenticated = False,
            bytes_sent = 0, bytes_received = 0\<rparr>"
    by (simp add: cm_one_eval get_connection_info_def)
  from update_activity_sets_clock_reading [OF live, of 25] live show ?thesis by simp
qed

lemma seconds_in_range:
  "- 9223372036 \<le> s \<Longrightarrow> s \<le> 9223372036 \<Longrightarrow> seconds s = s * 1000000000"
  by (simp add: seconds_def int64_wrap_def)

text \<open>
  C8, as stated, fails. A timeout of 9223372037 seconds does not fit the signed 64-bit
  nanosecond count it is converted to. The record admitted at time 10 has been inactive
  for 10 nanoseconds at time 20, far less than that timeout, yet the sweep removes it and
  the counter drops to 0.
\<close>

theorem cleanup_evicts_active_record_counterexample:
  "map_option last_activity (get_connection_info cm_one ''c1'') = Some 10 \<and>
   (20 :: int) - 10 \<le> 9223372037 * 1000000000 \<and>
   get_connection_info (cleanup_inactive_connections cm_one 20 9223372037) ''c1'' = None \<and>
   cm_current_connections cm_one = 1 \<and>
   cm_current_connections (cleanup_inactive_connections cm_one 20 9223372037) = 0"
  by (simp add: cm_one_eval cleanup_inactive_connections_def handle_disconnection_def
      update_metric_def get_connection_info_def inactive_def seconds_def int64_wrap_def
      u32_to_double_def Let_def)

text \<open>
  C8, amended. For a timeout whose nanosecond count fits a signed 64-bit integer (between
  -9223372036 and 9223372036 seconds), on a registry with one record per id,
  \<open>cleanup_inactive_connections\<close> keeps exactly the records whose inactivity
  \<open>now - last_activity\<close> does not exceed the timeout and removes exactly those for which
  it strictly does, leaving the kept records as they were; every removal goes through
  \<open>handle_disconnection\<close>, so the admitted counter goes down by the number of records
  removed.
\<close>

theorem cleanup_removes_exactly_inactive:
  assumes "registry_ok a" and "- 9223372036 \<le> timeout" and "timeout \<le> 9223372036"
  shows "cm_connections (cleanup_inactive_connections a now timeout) =
           filter (\<lambda>p. \<not> now - last_activity (snd p) > timeout * 1000000000)
             (cm_connections a) \<and>
         cm_current_connections (cleanup_inactive_connections a now timeout) =
           cm_current_connections a -
             word_of_nat (length (filter
               (\<lambda>p. now - last_activity (snd p) > timeout * 1000000000) (cm_connections a))) \<and>
         (\<forall>cid. get_connection_info (cleanup_inactive_connections a now timeout) cid =
            (case get_connection_info a cid of
               None \<Rightarrow> None
             | Some info \<Rightarrow>
                 if now - last_activity info > timeout * 1000000000 then None else Some info)) \<and>
         registry_ok (cleanup_inactive_connections a now timeout)"
proof -
  from assms(2,3) have ticks: "seconds timeout = timeout * 1000000000"
    by (rule seconds_in_range)
  then have test: "inactive now timeout = (\<lambda>p. now - last_activity (snd p) > timeout * 1000000000)"
    by (simp add: inactive_def fun_eq_iff)
  from assms(1) have d: "distinct (map fst (cm_connections a))" by (simp add: registry_ok_def)
  note c1 = cleanup_connections(1) [OF assms(1), of now timeout, unfolded test]
  note c2 = cleanup_connections(2) [OF assms(1), of now timeout, unfolded test]
  note c3 = cleanup_lookup [OF assms(1), of now timeout, unfolded ticks]
  have c4: "registry_ok (cleanup_inactive_connections a now timeout)"
    unfolding registry_ok_def c1 using d by (rule distinct_map_filter)
  from c1 c2 c3 c4 show ?thesis by blast
qed

text \<open>
  The record admitted at time 10 survives a sweep with a timeout of one second run exactly
  one second later (the inactivity does not exceed the timeout), and is removed by the next
  sweep, run two seconds after the admission; the counter goes from 1 to 0.
\<close>

theorem cleanup_removes_exactly_inactive_witness:
  "registry_ok cm_one \<and>
   get_connection_info cm_one ''c1'' \<noteq> None \<and>
   get_connection_info (cleanup_inactive_connections cm_one 1000000010 1) ''c1''
     = get_connection_info cm_one ''c1'' \<and>
   cm_current_connections (cleanup_inactive_connections cm_one 1000000010 1) = 1 \<and>
   get_connection_info
     (cleanup_inactive_connections (cleanup_inactive_connections cm_one 1000000010 1) 2000000010 1)
     ''c1'' = None \<and>
   cm_current_connections
     (cleanup_inactive_connections (cleanup_inactive_connections cm_one 1000000010 1) 2000000010 1)
     = 0"
proof -
  let ?a1 = "cleanup_inactive_connections cm_one 1000000010 1"
  let ?a2 = "cleanup_inactive_connections ?a1 2000000010 1"
  have ok: "registry_ok cm_one" by (simp add: registry_ok_def cm_one_eval)
  have lo: "- 9223372036 \<le> (1 :: int)" and hi: "(1 :: int) \<le> 9223372036" by simp_all
  have live: "get_connection_info cm_one ''c1'' \<noteq> None"
    by (simp add: cm_one_eval get_connection_info_def)
  note s1 = cleanup_removes_exactly_inactive [OF ok lo hi, of 1000000010]
  from s1 have ok1: "registry_ok ?a1" by blast
  from s1 have "cm_connections ?a1 =
      filter (\<lambda>p. \<not> 1000000010 - last_activity (snd p) > 1 * 1000000000)
        (cm_connections cm_one)" by blast
  then have c1: "cm_connections ?a1 = cm_connections cm_one"
    by (simp add: cm_one_eval)
  from s1 have "cm_current_connections ?a1 = cm_current_connections cm_one -
      word_of_nat (length (filter
        (\<lambda>p. 1000000010 - last_activity (snd p) > 1 * 1000000000) (cm_connections cm_one)))"
    by blast
  then have n1: "cm_current_connections ?a1 = 1"
    by (simp add: cm_one_eval)
  note s2 = cleanup_removes_exactly_inactive [OF ok1 lo hi, of 2000000010]
  from s2 have "cm_connections ?a2 =
      filter (\<lambda>p. \<not> 2000000010 - last_activity (snd p) > 1 * 1000000000)
        (cm_connections ?a1)" by blast
  then have c2: "cm_connections ?a2 = []"
    unfolding c1 by (simp add: cm_one_eval)
  from s2 have "cm_current_connections ?a2 = cm_current_connections ?a1 -
      word_of_nat (length (filter
        (\<lambda>p. 2000000010 - last_activity (snd p) > 1 * 1000000000) (cm_connections ?a1)))"
    by blast
  then have n2: "cm_current_connections ?a2 = 0"
    unfolding n1 c1 by (simp add: cm_one_eval)
  from ok live c1 n1 c2 n2 show ?thesis
    unfolding get_connection_info_def by simp
qed

end
